theory Spec2Isabelle
  imports Complex_Main
begin

section \<open>Smart Document Reader: strings and the browser's text primitives\<close>

text \<open>
  The program is the class \<open>SmartDocumentReader\<close> of \<open>script.js\<close>. A JavaScript string is
  modelled as a \<open>string\<close>, one \<open>char\<close> per code unit (code units below 256), so
  \<open>text.length\<close> is \<open>length\<close>.

  \<open>String.prototype.trim\<close> removes white space and line terminators from both ends. In the
  range of \<open>char\<close> these are U+0009 to U+000D, U+0020 and U+00A0.
\<close>

definition isSpace :: "char \<Rightarrow> bool" where
  "isSpace c = (c = CHR 0x09 \<or> c = CHR 0x0A \<or> c = CHR 0x0B \<or> c = CHR 0x0C \<or>
                c = CHR 0x0D \<or> c = CHR 0x20 \<or> c = CHR 0xA0)"

definition trim :: "string \<Rightarrow> string" where
  "trim s = rev (dropWhile isSpace (rev (dropWhile isSpace s)))"

text \<open>
  \<open>s.split(' ')\<close> and \<open>text.split('\n\n')\<close>: the pieces between the occurrences of the
  separator, found left to right without overlap. The accumulator holds the current piece
  reversed. The empty string splits into one empty piece.
\<close>

fun splitSpace :: "string \<Rightarrow> string \<Rightarrow> string list" where
  "splitSpace acc [] = [rev acc]"
| "splitSpace acc (c # cs) =
     (if c = CHR 0x20 then rev acc # splitSpace [] cs else splitSpace (c # acc) cs)"

fun splitBlankLine :: "string \<Rightarrow> string \<Rightarrow> string list" where
  "splitBlankLine acc [] = [rev acc]"
| "splitBlankLine acc [c] = [rev (c # acc)]"
| "splitBlankLine acc (c # d # cs) =
     (if c = CHR 0x0A \<and> d = CHR 0x0A then rev acc # splitBlankLine [] cs
      else splitBlankLine (c # acc) (d # cs))"

text \<open>\<open>s.startsWith(p)\<close> and \<open>s.includes(p)\<close>.\<close>

fun startsWith :: "string \<Rightarrow> string \<Rightarrow> bool" where
  "startsWith s [] = True"
| "startsWith [] (p # ps) = False"
| "startsWith (c # cs) (p # ps) = (c = p \<and> startsWith cs ps)"

fun includesStr :: "string \<Rightarrow> string \<Rightarrow> bool" where
  "includesStr [] p = (p = [])"
| "includesStr (c # cs) p = (startsWith (c # cs) p \<or> includesStr cs p)"

section \<open>Sentence segmentation\<close>

text \<open>
  \<open>text.match(/[^\.!?]+[\.!?]+/g)\<close>. A match is a maximal run of characters other than
  \<open>.\<close>, \<open>!\<close>, \<open>?\<close> followed by a maximal run of these three. Both classes are complements
  of each other, so backtracking never finds a match that the greedy scan misses: a match
  cannot start on a terminator (the scan moves on), and a run of other characters that
  reaches the end of the text matches nowhere. \<open>matchSentences\<close> is the list of all
  matches; JavaScript returns \<open>null\<close> where this list is empty.
\<close>

definition isTerminator :: "char \<Rightarrow> bool" where
  "isTerminator c = (c = CHR ''.'' \<or> c = CHR ''!'' \<or> c = CHR ''?'')"

function matchSentences :: "string \<Rightarrow> string list" where
  "matchSentences s =
     (let s1 = dropWhile isTerminator s;
          body = takeWhile (\<lambda>c. \<not> isTerminator c) s1;
          rest = dropWhile (\<lambda>c. \<not> isTerminator c) s1
      in if s1 = [] \<or> rest = [] then []
         else (body @ takeWhile isTerminator rest) # matchSentences (dropWhile isTerminator rest))"
  by pat_completeness auto
termination
proof (relation "measure length")
  show "wf (measure length)" by simp
next
  fix s s1 body rest :: string
  assume s1: "s1 = dropWhile isTerminator s"
    and rest: "rest = dropWhile (\<lambda>c. \<not> isTerminator c) s1"
    and ne: "\<not> (s1 = [] \<or> rest = [])"
  from ne obtain c cs where c: "rest = c # cs" by (cases rest) auto
  have "isTerminator c"
    using c rest by (metis hd_dropWhile list.sel(1) list.simps(3))
  then have "length (dropWhile isTerminator rest) < length rest"
    using c by (simp add: le_imp_less_Suc length_dropWhile_le)
  also have "\<dots> \<le> length s1"
    using rest by (simp add: length_dropWhile_le)
  also have "\<dots> \<le> length s"
    using s1 by (simp add: length_dropWhile_le)
  finally show "(dropWhile isTerminator rest, s) \<in> measure length" by simp
qed

declare matchSentences.simps [simp del]

text \<open>
  The document tree that \<open>processDocument\<close> hands to the segmenter: \<open>tempDiv\<close> after the
  browser has parsed the formatted HTML into it. A node is a text node, an element with
  its child nodes, or a node of another type (a comment), which the traversal skips.
\<close>

datatype node = TextNode string | ElementNode string "node list" | OtherNode

text \<open>
  \<open>extractSentencesFromElement\<close> pushes to \<open>this.sentences\<close>; the model returns the
  sentences pushed, in order. \<open>textSentences\<close> is the body of the text-node branch.
\<close>

definition textSentences :: "string \<Rightarrow> string list" where
  "textSentences content =
     (let text = trim content
      in if text = [] then []
         else let sentences = (if matchSentences text = [] then [text] else matchSentences text)
              in filter (\<lambda>s. length s > 0) (map trim sentences))"

fun extractSentencesFromElement :: "node \<Rightarrow> string list"
  and extractChildren :: "node list \<Rightarrow> string list" where
  "extractSentencesFromElement (ElementNode tag children) = extractChildren children"
| "extractSentencesFromElement (TextNode content) = []"
| "extractSentencesFromElement OtherNode = []"
| "extractChildren [] = []"
| "extractChildren (TextNode content # ns) = textSentences content @ extractChildren ns"
| "extractChildren (ElementNode tag children # ns) =
     extractSentencesFromElement (ElementNode tag children) @ extractChildren ns"
| "extractChildren (OtherNode # ns) = extractChildren ns"

section \<open>JavaScript numbers\<close>

text \<open>
  The analyzer divides two array lengths. JavaScript division never raises: a zero divisor
  gives \<open>NaN\<close> for \<open>0 / 0\<close> and \<open>Infinity\<close> for a positive dividend, and every comparison
  with \<open>NaN\<close> is false. A finite quotient is kept as the exact rational; the rounding to a
  double is left out, which does not change the comparisons made here (a quotient of
  lengths above the integer threshold exceeds it by at least the reciprocal of the divisor).
\<close>

datatype jsnum = NaN | Infinity | Fin rat

definition jsDiv :: "nat \<Rightarrow> nat \<Rightarrow> jsnum" where
  "jsDiv a b = (if b = 0 then (if a = 0 then NaN else Infinity) else Fin (of_nat a / of_nat b))"

fun jsGreater :: "jsnum \<Rightarrow> rat \<Rightarrow> bool" where
  "jsGreater NaN t = False"
| "jsGreater Infinity t = True"
| "jsGreater (Fin q) t = (q > t)"

text \<open>Decimal digits of an integer, as the template literal prints it.\<close>

fun showNat :: "nat \<Rightarrow> string" where
  "showNat n = (if n < 10 then [char_of (48 + n)] else showNat (n div 10) @ [char_of (48 + n mod 10)])"

declare showNat.simps [simp del]

definition showInt :: "int \<Rightarrow> string" where
  "showInt i = (if i < 0 then CHR ''-'' # showNat (nat (- i)) else showNat (nat i))"

text \<open>\<open>`${Math.round(x)}`\<close>: \<open>Math.round\<close> rounds to the nearest integer, halves upwards.\<close>

fun showRounded :: "jsnum \<Rightarrow> string" where
  "showRounded NaN = ''NaN''"
| "showRounded Infinity = ''Infinity''"
| "showRounded (Fin q) = showInt \<lfloor>q + 1 / 2\<rfloor>"

section \<open>Barrier analysis\<close>

datatype severity = High | Medium | Low

record issue =
  issueType :: string
  severity :: severity
  description :: string
  impact :: string

text \<open>
  \<open>/^(#|Chapter|Section|Part)/m.test(text)\<close>: with the \<open>m\<close> flag, \<open>^\<close> matches at the start of
  the text and after every line terminator (U+000A and U+000D in the range of \<open>char\<close>).
  \<open>lineStarts\<close> lists the rest of the text from each such position.
\<close>

fun lineStarts :: "string \<Rightarrow> string list" where
  "lineStarts [] = []"
| "lineStarts (c # cs) = (if c = CHR 0x0A \<or> c = CHR 0x0D then cs # lineStarts cs else lineStarts cs)"

definition hasHeadings :: "string \<Rightarrow> bool" where
  "hasHeadings text =
     list_ex (\<lambda>l. startsWith l ''#'' \<or> startsWith l ''Chapter'' \<or> startsWith l ''Section'' \<or>
                   startsWith l ''Part'') (text # lineStarts text)"

definition wordCount :: "string \<Rightarrow> nat" where
  "wordCount s = length (splitSpace [] s)"

definition avgSentenceLength :: "string list \<Rightarrow> jsnum" where
  "avgSentenceLength ss = jsDiv (foldl (\<lambda>sum s. sum + wordCount s) 0 ss) (length ss)"

definition paragraphs :: "string \<Rightarrow> string list" where
  "paragraphs text = filter (\<lambda>p. length (trim p) > 0) (splitBlankLine [] text)"

definition avgParagraphLength :: "string \<Rightarrow> jsnum" where
  "avgParagraphLength text = jsDiv (length text) (length (paragraphs text))"

definition complexityIssue :: "jsnum \<Rightarrow> issue" where
  "complexityIssue avg =
     \<lparr>issueType = ''Sentence Complexity'', severity = High,
      description = ''Average sentence length: '' @ showRounded avg @ '' words (recommended: <20)'',
      impact = ''Difficult for screen readers and cognitive processing''\<rparr>"

definition structureIssue :: issue where
  "structureIssue =
     \<lparr>issueType = ''Document Structure'', severity = Medium,
      description = ''No clear headings or structure detected'',
      impact = ''Difficult navigation for assistive technologies''\<rparr>"

definition densityIssue :: issue where
  "densityIssue =
     \<lparr>issueType = ''Text Density'', severity = Medium,
      description = ''Large text blocks detected'',
      impact = ''Overwhelming for users with reading difficulties''\<rparr>"

text \<open>
  The three checks of \<open>analyzeAccessibility\<close>, in the order in which the source pushes to
  \<open>this.accessibilityIssues\<close>, over the text passed in and \<open>this.sentences\<close>.
\<close>

definition detectIssues :: "string \<Rightarrow> string list \<Rightarrow> issue list" where
  "detectIssues text ss =
     (if jsGreater (avgSentenceLength ss) 20 then [complexityIssue (avgSentenceLength ss)] else []) @
     (if \<not> hasHeadings text \<and> length ss > 10 then [structureIssue] else []) @
     (if jsGreater (avgParagraphLength text) 500 then [densityIssue] else [])"

text \<open>
  \<open>displayAccessibilityAnalysis\<close> computes the score and the risk level and renders them
  with the issues and one recommendation. The report is what it renders, without the markup.
\<close>

datatype riskLevel = LowRisk | MediumRisk | HighRisk

record report =
  score :: int
  risk :: riskLevel
  shown :: "issue list"
  recommendation :: "string option"

definition penalty :: "issue \<Rightarrow> int" where
  "penalty i = (if severity i = High then 15 else if severity i = Medium then 8 else 3)"

definition computeScore :: "issue list \<Rightarrow> int" where
  "computeScore issues = foldl (\<lambda>score i. score - penalty i) 100 issues"

definition riskOf :: "int \<Rightarrow> riskLevel" where
  "riskOf sc = (if sc < 70 then HighRisk else if sc < 85 then MediumRisk else LowRisk)"

definition recommend :: "issue list \<Rightarrow> string option" where
  "recommend issues =
     (if length issues = 0 then None
      else if list_ex (\<lambda>i. issueType i = ''Sentence Complexity'') issues
        then Some ''Vision Mode with audio and sentence highlighting for complex text. ''
      else if list_ex (\<lambda>i. issueType i = ''Document Structure'') issues
        then Some ''Use sentence-by-sentence navigation for better structure. ''
      else if list_ex (\<lambda>i. issueType i = ''Text Density'') issues
        then Some ''Audio mode with chunked reading for dense content. ''
      else Some ''Document is well-structured for all accessibility modes. '')"

definition renderReport :: "issue list \<Rightarrow> report" where
  "renderReport issues =
     \<lparr>score = computeScore issues, risk = riskOf (computeScore issues),
      shown = issues, recommendation = recommend issues\<rparr>"

section \<open>Voice selection\<close>

record voice =
  name :: string
  lang :: string
  localService :: bool

text \<open>
  The expression of \<open>readCurrentSentence\<close> that picks \<open>preferredVoice\<close> from
  \<open>speechSynth.getVoices()\<close>; \<open>None\<close> is \<open>undefined\<close>. A voice object is truthy, so \<open>||\<close>
  moves on exactly where \<open>find\<close> found nothing.
\<close>

definition hasKeyword :: "voice \<Rightarrow> bool" where
  "hasKeyword v = (includesStr (name v) ''Natural'' \<or> includesStr (name v) ''Enhanced'' \<or>
                   includesStr (name v) ''Premium'' \<or> includesStr (name v) ''Neural'')"

definition preferredVoice :: "voice list \<Rightarrow> voice option" where
  "preferredVoice voices =
     (case find (\<lambda>v. hasKeyword v \<or> (startsWith (lang v) ''en'' \<and> localService v)) voices of
        Some v \<Rightarrow> Some v
      | None \<Rightarrow>
          (case find (\<lambda>v. startsWith (lang v) ''en'') voices of
             Some v \<Rightarrow> Some v
           | None \<Rightarrow> (case voices of [] \<Rightarrow> None | v # vs \<Rightarrow> Some v)))"

section \<open>The reader and its playback controller\<close>

text \<open>
  \<open>rate\<close> is \<open>parseFloat(this.speedSlider.value)\<close>: the number is kept as the text it is
  parsed from. \<open>pitch\<close> and \<open>volume\<close> are the constants 1.1 and 1.
\<close>

datatype jsfloat = ParseFloat string

record utterance =
  utext :: string
  uvoice :: "voice option"
  rate :: jsfloat
  pitch :: rat
  volume :: rat

text \<open>
  The speech engine is outside the program. It keeps every utterance passed to \<open>speak\<close>
  until it fires that utterance's \<open>end\<close> or \<open>error\<close> event. \<open>forIndex\<close> records the sentence
  index the utterance was created for (the handlers of the source do not know it), and
  \<open>cancelled\<close> whether \<open>cancel\<close> was called since.
\<close>

record request =
  forIndex :: int
  utt :: utterance
  cancelled :: bool

record settings =
  accessibilityModeSetting :: bool
  speed :: string

text \<open>
  The fields of the class that the modelled methods use, then the parts of the page and of
  the browser they read and write: the value of the speed slider, what the analysis panel
  shows, the announcements made, the \<open>localStorage\<close> item (\<open>JSON.parse\<close> of
  \<open>JSON.stringify\<close> of a record of a boolean and a string is that record), the engine's
  voices and pending utterances, and the number of pending \<open>setTimeout\<close> callbacks, all of
  which call \<open>readCurrentSentence\<close>.
\<close>

record reader =
  currentText :: string
  sentences :: "string list"
  currentSentence :: int
  isPlaying :: bool
  utterance :: "utterance option"
  accessibilityMode :: bool
  accessibilityIssues :: "issue list"
  speedSliderValue :: string
  analysisResults :: "report option"
  announcements :: "string list"
  localStorage :: "settings option"
  engineVoices :: "voice list"
  requests :: "request list"
  timers :: nat

definition announceToScreenReader :: "string \<Rightarrow> reader \<Rightarrow> reader" where
  "announceToScreenReader message s = s\<lparr>announcements := announcements s @ [message]\<rparr>"

definition cancel :: "reader \<Rightarrow> reader" where
  "cancel s = s\<lparr>requests := map (\<lambda>r. r\<lparr>cancelled := True\<rparr>) (requests s)\<rparr>"

definition speak :: "utterance \<Rightarrow> reader \<Rightarrow> reader" where
  "speak u s = s\<lparr>requests := requests s @ [\<lparr>forIndex = currentSentence s, utt = u, cancelled = False\<rparr>]\<rparr>"

definition setTimeoutRead :: "reader \<Rightarrow> reader" where
  "setTimeoutRead s = s\<lparr>timers := Suc (timers s)\<rparr>"

definition displayAccessibilityAnalysis :: "reader \<Rightarrow> reader" where
  "displayAccessibilityAnalysis s = s\<lparr>analysisResults := Some (renderReport (accessibilityIssues s))\<rparr>"

definition analyzeAccessibility :: "string \<Rightarrow> reader \<Rightarrow> reader" where
  "analyzeAccessibility text s =
     displayAccessibilityAnalysis (s\<lparr>accessibilityIssues := detectIssues text (sentences s)\<rparr>)"

definition pauseReading :: "reader \<Rightarrow> reader" where
  "pauseReading s =
     (let s1 = s\<lparr>isPlaying := False\<rparr>
      in if utterance s1 \<noteq> None then cancel s1 else s1)"

text \<open>
  \<open>readCurrentSentence\<close>. Past the guard the index is below the length; a negative index
  would read \<open>undefined\<close>, for which the utterance's text is empty.
\<close>

definition newUtterance :: "reader \<Rightarrow> utterance" where
  "newUtterance s =
     \<lparr>utext = (if 0 \<le> currentSentence s then sentences s ! nat (currentSentence s) else []),
      uvoice = preferredVoice (engineVoices s),
      rate = ParseFloat (speedSliderValue s),
      pitch = 11 / 10,
      volume = 1\<rparr>"

definition readCurrentSentence :: "reader \<Rightarrow> reader" where
  "readCurrentSentence s =
     (if \<not> isPlaying s \<or> currentSentence s \<ge> int (length (sentences s)) then pauseReading s
      else speak (newUtterance s) (s\<lparr>utterance := Some (newUtterance s)\<rparr>))"

text \<open>The \<open>onend\<close> and \<open>onerror\<close> handlers that \<open>readCurrentSentence\<close> gives every utterance.\<close>

definition onend :: "reader \<Rightarrow> reader" where
  "onend s =
     (let s1 = s\<lparr>currentSentence := currentSentence s + 1\<rparr>
      in if currentSentence s1 < int (length (sentences s1)) \<and> isPlaying s1 then setTimeoutRead s1
         else announceToScreenReader ''Document reading complete.'' (pauseReading s1))"

definition onerror :: "reader \<Rightarrow> reader" where
  "onerror s = pauseReading s"

definition startReading :: "reader \<Rightarrow> reader" where
  "startReading s =
     (if length (sentences s) = 0
      then announceToScreenReader ''No document loaded. Please upload a file first.'' s
      else readCurrentSentence (s\<lparr>isPlaying := True\<rparr>))"

definition togglePlayback :: "reader \<Rightarrow> reader" where
  "togglePlayback s = (if isPlaying s then pauseReading s else startReading s)"

definition updateSpeed :: "string \<Rightarrow> reader \<Rightarrow> reader" where
  "updateSpeed sp s =
     (if utterance s \<noteq> None \<and> isPlaying s then setTimeoutRead (cancel s) else s)"

definition resetPlayback :: "reader \<Rightarrow> reader" where
  "resetPlayback s = pauseReading (s\<lparr>currentSentence := 0\<rparr>)"

text \<open>
  \<open>processDocument\<close>: \<open>tempDiv\<close> is the tree the browser builds from the formatted HTML of
  the text.
\<close>

definition processDocument :: "string \<Rightarrow> node \<Rightarrow> reader \<Rightarrow> reader" where
  "processDocument text tempDiv s =
     resetPlayback (s\<lparr>currentText := text, sentences := extractSentencesFromElement tempDiv\<rparr>)"

definition saveSettings :: "reader \<Rightarrow> reader" where
  "saveSettings s =
     s\<lparr>localStorage := Some \<lparr>accessibilityModeSetting = accessibilityMode s,
                               speed = speedSliderValue s\<rparr>\<rparr>"

definition toggleAccessibilityMode :: "reader \<Rightarrow> reader" where
  "toggleAccessibilityMode s =
     (let s1 = saveSettings (s\<lparr>accessibilityMode := \<not> accessibilityMode s\<rparr>)
      in announceToScreenReader
           ((if accessibilityMode s1 then ''Accessibility'' else ''Normal'') @ '' mode activated'') s1)"

text \<open>
  \<open>loadSettings\<close>: a boolean is truthy when true, a string when it is not empty. The speed
  saved is a value the slider had, which assigning back to the slider keeps as it is.
\<close>

definition loadSettings :: "reader \<Rightarrow> reader" where
  "loadSettings s =
     (case localStorage s of
        None \<Rightarrow> s
      | Some parsed \<Rightarrow>
          (let s1 = (if accessibilityModeSetting parsed then toggleAccessibilityMode s else s)
           in if speed parsed \<noteq> [] then s1\<lparr>speedSliderValue := speed parsed\<rparr> else s1))"

text \<open>
  The constructor, given what the page and the browser hold when it runs: the initial value
  of the slider, the stored settings and the engine's voices.
\<close>

definition constructor :: "string \<Rightarrow> settings option \<Rightarrow> voice list \<Rightarrow> reader" where
  "constructor sliderValue stored voices =
     loadSettings
       (announceToScreenReader
          ''Smart Document Reader loaded in accessibility mode. Upload a document to begin.''
          \<lparr>currentText = [], sentences = [], currentSentence = 0, isPlaying = False,
           utterance = None, accessibilityMode = True, accessibilityIssues = [],
           speedSliderValue = sliderValue, analysisResults = None, announcements = [],
           localStorage = stored, engineVoices = voices, requests = [], timers = 0\<rparr>)"

datatype key = Space | ArrowRight | ArrowLeft | OtherKey

definition handleKeyboard :: "bool \<Rightarrow> key \<Rightarrow> reader \<Rightarrow> reader" where
  "handleKeyboard ctrlOrMeta k s =
     (if ctrlOrMeta then
        (case k of
           Space \<Rightarrow> togglePlayback s
         | ArrowRight \<Rightarrow>
             (if currentSentence s < int (length (sentences s)) - 1 then
                (let s1 = s\<lparr>currentSentence := currentSentence s + 1\<rparr>
                 in if isPlaying s1 then setTimeoutRead (cancel s1) else s1)
              else s)
         | ArrowLeft \<Rightarrow>
             (if currentSentence s > 0 then
                (let s1 = s\<lparr>currentSentence := currentSentence s - 1\<rparr>
                 in if isPlaying s1 then setTimeoutRead (cancel s1) else s1)
              else s)
         | OtherKey \<Rightarrow> s)
      else s)"

text \<open>
  \<open>handleFileUpload\<close> for a file that was read: \<open>processDocument\<close>, \<open>analyzeAccessibility\<close>
  and the announcement. The other paths (no file, unsupported type, read error) change
  none of the fields above but the announcements.
\<close>

definition handleFileUpload :: "string \<Rightarrow> string \<Rightarrow> node \<Rightarrow> reader \<Rightarrow> reader" where
  "handleFileUpload fileName text tempDiv s =
     (let s1 = analyzeAccessibility text (processDocument text tempDiv s)
      in announceToScreenReader
           (''Document loaded: '' @ fileName @ ''. '' @ showNat (length (sentences s1)) @
            '' sentences ready for reading.'') s1)"

section \<open>Events\<close>

text \<open>
  The program runs one handler at a time, each to its end. An event is a user action, a
  timer that fires, or an event of the speech engine on one of its pending utterances,
  named by its position in \<open>requests\<close>; the utterance then leaves the list.
\<close>

datatype event =
    PlayClick
  | KeyDown bool key
  | SpeedInput string
  | ModeClick
  | FileLoaded string string node
  | TimerFires
  | SpeechEnd nat
  | SpeechError nat
  | VoicesChanged "voice list"

definition removeAt :: "nat \<Rightarrow> 'a list \<Rightarrow> 'a list" where
  "removeAt k xs = take k xs @ drop (Suc k) xs"

fun fire :: "event \<Rightarrow> reader \<Rightarrow> reader" where
  "fire PlayClick s = togglePlayback s"
| "fire (KeyDown ctrlOrMeta k) s = handleKeyboard ctrlOrMeta k s"
| "fire (SpeedInput v) s = updateSpeed v (s\<lparr>speedSliderValue := v\<rparr>)"
| "fire ModeClick s = toggleAccessibilityMode s"
| "fire (FileLoaded fileName text tempDiv) s = handleFileUpload fileName text tempDiv s"
| "fire TimerFires s = readCurrentSentence (s\<lparr>timers := timers s - 1\<rparr>)"
| "fire (SpeechEnd k) s = onend (s\<lparr>requests := removeAt k (requests s)\<rparr>)"
| "fire (SpeechError k) s = onerror (s\<lparr>requests := removeAt k (requests s)\<rparr>)"
| "fire (VoicesChanged vs) s = s\<lparr>engineVoices := vs\<rparr>"

text \<open>
  Which events can happen in a state. With \<open>late\<close> the engine may still fire \<open>end\<close> on an
  utterance after \<open>cancel\<close>; without it a cancelled utterance only ever gets \<open>error\<close>.
\<close>

fun enabled :: "bool \<Rightarrow> event \<Rightarrow> reader \<Rightarrow> bool" where
  "enabled late TimerFires s = (timers s > 0)"
| "enabled late (SpeechEnd k) s = (k < length (requests s) \<and> (late \<or> \<not> cancelled (requests s ! k)))"
| "enabled late (SpeechError k) s = (k < length (requests s))"
| "enabled late e s = True"

fun run :: "bool \<Rightarrow> event list \<Rightarrow> reader \<Rightarrow> reader option" where
  "run late [] s = Some s"
| "run late (e # es) s = (if enabled late e s then run late es (fire e s) else None)"

inductive reachable :: "bool \<Rightarrow> reader \<Rightarrow> bool" for late :: bool where
  start: "reachable late (constructor sliderValue stored voices)"
| step: "reachable late s \<Longrightarrow> enabled late e s \<Longrightarrow> reachable late (fire e s)"

text \<open>
  The playback status of the specification, read off the fields: \<open>Finished\<close> is a reader
  that is not playing with the index at the sentence count, \<open>Idle\<close> one that never spoke.
\<close>

datatype status = Idle | Playing | Paused | Finished

definition status :: "reader \<Rightarrow> status" where
  "status s =
     (if isPlaying s then Playing
      else if currentSentence s = int (length (sentences s)) then Finished
      else if utterance s = None then Idle
      else Paused)"

text \<open>The text of a tree, and a text without its white space.\<close>

fun textContent :: "node \<Rightarrow> string" and textContents :: "node list \<Rightarrow> string" where
  "textContent (TextNode content) = content"
| "textContent (ElementNode tag children) = textContents children"
| "textContent OtherNode = []"
| "textContents [] = []"
| "textContents (n # ns) = textContent n @ textContents ns"

definition nonSpace :: "string \<Rightarrow> string" where
  "nonSpace s = filter (\<lambda>c. \<not> isSpace c) s"

section \<open>Invariants and example documents\<close>

text \<open>
  The invariant of the controller that the reachable states keep. The last part needs an
  engine that fires no \<open>end\<close> on a cancelled utterance.
\<close>

definition playbackInv :: "bool \<Rightarrow> reader \<Rightarrow> bool" where
  "playbackInv late s =
     (0 \<le> currentSentence s \<and>
      (isPlaying s \<longrightarrow> currentSentence s < int (length (sentences s))) \<and>
      (requests s \<noteq> [] \<longrightarrow> utterance s \<noteq> None) \<and>
      (\<not> late \<longrightarrow> currentSentence s \<le> int (length (sentences s)) \<and>
         ((\<exists>r \<in> set (requests s). \<not> cancelled r) \<longrightarrow>
            currentSentence s < int (length (sentences s)))))"

text \<open>
  A page whose slider starts at 1, with nothing stored and no voices, and two uploads: a
  text file holding \<open>Hi.\<close>, which \<open>processDocument\<close> formats as one paragraph, and an
  empty text file, whose formatted HTML is empty.
\<close>

definition freshReader :: reader where
  "freshReader = constructor ''1'' None []"

definition oneSentenceFile :: event where
  "oneSentenceFile = FileLoaded ''a.txt'' ''Hi.'' (ElementNode ''div'' [ElementNode ''p'' [TextNode ''Hi.'']])"

definition emptyFile :: event where
  "emptyFile = FileLoaded ''b.txt'' [] (ElementNode ''div'' [])"

text \<open>
  Two documents of 15 sentences of 25 words each and no heading. In the first the sentences
  are one paragraph of 764 characters; in the second each sentence is a paragraph of its
  own. \<open>denseDiv\<close> and \<open>spacedDiv\<close> are the trees of their formatted HTML (paragraphs are
  joined by a line feed, which becomes a text node between them).
\<close>

definition sentence25 :: string where
  "sentence25 = concat (replicate 24 ''a '') @ ''a.''"

definition denseText :: string where
  "denseText = sentence25 @ concat (replicate 14 ('' '' @ sentence25))"

definition denseDiv :: node where
  "denseDiv = ElementNode ''div'' [ElementNode ''p'' [TextNode denseText]]"

definition denseReader :: reader where
  "denseReader = processDocument denseText denseDiv freshReader"

definition spacedText :: string where
  "spacedText = sentence25 @ concat (replicate 14 ([CHR 0x0A, CHR 0x0A] @ sentence25))"

definition spacedDiv :: node where
  "spacedDiv = ElementNode ''div'' (ElementNode ''p'' [TextNode sentence25] #
     concat (replicate 14 [TextNode [CHR 0x0A], ElementNode ''p'' [TextNode sentence25]]))"

definition spacedReader :: reader where
  "spacedReader = processDocument spacedText spacedDiv freshReader"

text \<open>
  The reader after its one sentence has been read to the end; a document of six sentences
  read up to the fourth, and the reader after Ctrl+ArrowRight there.
\<close>

definition finishedReader :: reader where
  "finishedReader = the (run False [oneSentenceFile, PlayClick, SpeechEnd 0] freshReader)"

definition sixSentencesFile :: event where
  "sixSentencesFile = FileLoaded ''c.txt'' ''A. B. C. D. E. F.''
     (ElementNode ''div'' [ElementNode ''p'' [TextNode ''A. B. C. D. E. F.'']])"

definition playingAtThree :: "event list" where
  "playingAtThree = [sixSentencesFile, PlayClick, SpeechEnd 0, TimerFires, SpeechEnd 0, TimerFires,
                     SpeechEnd 0, TimerFires]"

definition seekReader :: reader where
  "seekReader = the (run True (playingAtThree @ [KeyDown True ArrowRight]) freshReader)"

text \<open>Every pending utterance has the pitch and the volume that \<open>readCurrentSentence\<close> sets.\<close>

definition requestsConfigured :: "reader \<Rightarrow> bool" where
  "requestsConfigured s = (\<forall>r \<in> set (requests s). pitch (utt r) = 11 / 10 \<and> volume (utt r) = 1)"

section \<open>Properties of the segmentation\<close>

lemma textSentences_nonempty: "s \<in> set (textSentences content) \<Longrightarrow> s \<noteq> []"
  by (auto simp: textSentences_def Let_def split: if_splits)

lemma extract_nonempty:
  "s \<in> set (extractSentencesFromElement n) \<longrightarrow> s \<noteq> []"
  "s \<in> set (extractChildren ns) \<longrightarrow> s \<noteq> []"
  by (induction n and ns rule: extractSentencesFromElement_extractChildren.induct)
     (auto dest: textSentences_nonempty)

text \<open>
  Claim C1 (total coverage of the segmentation). No produced sentence is empty
  (\<open>extract_nonempty\<close>), but the coverage fails: the pattern only matches text that ends in
  a terminator, and the fallback to the whole text applies only when nothing matches. For
  the paragraph \<open>Hello. World\<close> the segmenter produces the single sentence \<open>Hello.\<close>; the
  characters of \<open>World\<close> are in no sentence.
\<close>

theorem segmenter_drops_unterminated_tail:
  "extractSentencesFromElement (ElementNode ''div'' [ElementNode ''p'' [TextNode ''Hello. World'']])
     = [''Hello.''] \<and>
   nonSpace (concat (extractSentencesFromElement
       (ElementNode ''div'' [ElementNode ''p'' [TextNode ''Hello. World'']])))
     \<noteq> nonSpace (textContent (ElementNode ''div'' [ElementNode ''p'' [TextNode ''Hello. World'']]))"
  by code_simp

section \<open>Properties of the voice selection\<close>

lemma preferredVoice_None: "preferredVoice vs = None \<longleftrightarrow> vs = []"
  by (auto simp: preferredVoice_def split: option.splits list.splits)

text \<open>
  Claim C3 (four strictly ordered tiers of voice selection). The first \<open>find\<close> tests the
  keywords and "local English" in one predicate, so the first two tiers are one: a local
  English voice listed before a voice named \<open>Google Natural\<close> is chosen over it.
\<close>

theorem local_english_beats_later_keyword_voice:
  "preferredVoice [\<lparr>name = ''Alex'', lang = ''en-US'', localService = True\<rparr>,
                   \<lparr>name = ''Google Natural'', lang = ''en-US'', localService = False\<rparr>]
     = Some \<lparr>name = ''Alex'', lang = ''en-US'', localService = True\<rparr> \<and>
   \<not> hasKeyword \<lparr>name = ''Alex'', lang = ''en-US'', localService = True\<rparr> \<and>
   hasKeyword \<lparr>name = ''Google Natural'', lang = ''en-US'', localService = False\<rparr>"
  by code_simp

section \<open>Properties of the settings\<close>

lemma saved_speed_restored:
  "speedSliderValue s \<noteq> [] \<Longrightarrow>
     speedSliderValue (constructor d (localStorage (saveSettings s)) vs) = speedSliderValue s"
  by (simp add: constructor_def saveSettings_def loadSettings_def toggleAccessibilityMode_def
       announceToScreenReader_def Let_def)

text \<open>
  Claim C6 (settings round trip). The speed comes back (\<open>saved_speed_restored\<close>), the mode
  does not: the constructor starts with the mode on, and \<open>loadSettings\<close> toggles it when
  the saved mode is on. Whatever mode was saved, the reader starts with the opposite one.
\<close>

theorem saved_mode_is_inverted_on_load:
  "accessibilityMode (constructor d (localStorage (saveSettings s)) vs) = (\<not> accessibilityMode s)"
  by (simp add: constructor_def saveSettings_def loadSettings_def toggleAccessibilityMode_def
       announceToScreenReader_def Let_def)

section \<open>Properties of the barrier analysis\<close>

lemma foldl_penalty: "foldl (\<lambda>sc i. sc - penalty i) a xs = a - sum_list (map penalty xs)"
  by (induction xs arbitrary: a) auto

lemma computeScore_sum: "computeScore issues = 100 - sum_list (map penalty issues)"
  by (simp add: computeScore_def foldl_penalty)

lemma penalty_detect: "sum_list (map penalty (detectIssues text ss)) \<le> 31"
  by (simp add: detectIssues_def penalty_def complexityIssue_def structureIssue_def densityIssue_def)

lemma sentences_dense: "sentences denseReader = replicate 15 sentence25"
  by code_simp

lemma sentences_spaced: "sentences spacedReader = replicate 15 sentence25"
  by code_simp

lemma avg_sentence25: "avgSentenceLength (replicate 15 sentence25) = Fin 25"
  by code_simp

text \<open>
  Claim C2, as stated (every 15-sentence document without headings and with 25 words per
  sentence gets exactly the Complexity and Structure issues, score 77, medium risk): when
  the 15 sentences are one paragraph, the text has more than 500 characters per paragraph,
  the Text Density issue fires as well and the score is 69, high risk.
\<close>

theorem scenarioB_dense_counterexample:
  "length (sentences denseReader) = 15 \<and>
   \<not> hasHeadings denseText \<and>
   avgSentenceLength (sentences denseReader) = Fin 25 \<and>
   accessibilityIssues (analyzeAccessibility denseText denseReader)
     = [complexityIssue (Fin 25), structureIssue, densityIssue] \<and>
   map_option score (analysisResults (analyzeAccessibility denseText denseReader)) = Some 69 \<and>
   map_option risk (analysisResults (analyzeAccessibility denseText denseReader)) = Some HighRisk"
proof -
  have h1: "length (sentences denseReader) = 15"
    by (simp add: sentences_dense)
  have h2: "\<not> hasHeadings denseText"
    by code_simp
  have h3: "avgSentenceLength (sentences denseReader) = Fin 25"
    by (simp add: sentences_dense avg_sentence25)
  have h4: "jsGreater (avgParagraphLength denseText) 500"
    by code_simp
  have i: "detectIssues denseText (sentences denseReader)
             = [complexityIssue (Fin 25), structureIssue, densityIssue]"
    using h1 h2 h3 h4 by (simp add: detectIssues_def)
  have sc: "computeScore [complexityIssue (Fin 25), structureIssue, densityIssue] = 69"
    by (simp add: computeScore_sum penalty_def complexityIssue_def structureIssue_def
         densityIssue_def)
  show ?thesis
    using h1 h2 h3
    by (simp add: analyzeAccessibility_def displayAccessibilityAnalysis_def renderReport_def
         i sc riskOf_def)
qed

text \<open>
  Claim C2, amended: the score of every analysis is 100 minus the penalties of its issues
  (15, 8, 3), which is never below 0, and the risk level follows from the score; a
  15-sentence document without headings and with 25 words per sentence on average gets
  exactly the Complexity and Structure issues, score 77 and medium risk when its text has
  no more than 500 characters per paragraph.
\<close>

theorem analysis_score_and_risk:
  "analysisResults (analyzeAccessibility text s) = Some rep \<Longrightarrow>
     shown rep = accessibilityIssues (analyzeAccessibility text s) \<and>
     score rep = max 0 (100 - sum_list (map penalty (shown rep))) \<and>
     risk rep = (if score rep \<ge> 85 then LowRisk else if score rep \<ge> 70 then MediumRisk
                 else HighRisk) \<and>
     (length (sentences s) = 15 \<and> \<not> hasHeadings text \<and>
      avgSentenceLength (sentences s) = Fin 25 \<and>
      \<not> jsGreater (avgParagraphLength text) 500 \<longrightarrow>
        shown rep = [complexityIssue (Fin 25), structureIssue] \<and> score rep = 77 \<and>
        risk rep = MediumRisk)"
proof -
  assume a: "analysisResults (analyzeAccessibility text s) = Some rep"
  let ?is = "detectIssues text (sentences s)"
  have rep: "rep = renderReport ?is"
    using a by (simp add: analyzeAccessibility_def displayAccessibilityAnalysis_def)
  have acc: "accessibilityIssues (analyzeAccessibility text s) = ?is"
    by (simp add: analyzeAccessibility_def displayAccessibilityAnalysis_def)
  have sh: "shown rep = ?is" and sc: "score rep = 100 - sum_list (map penalty ?is)"
    and rk: "risk rep = riskOf (score rep)"
    by (simp_all add: rep renderReport_def computeScore_sum)
  have c0: "shown rep = accessibilityIssues (analyzeAccessibility text s)"
    using sh acc by simp
  have c1: "score rep = max 0 (100 - sum_list (map penalty (shown rep)))"
    using penalty_detect [of "text" "sentences s"] by (simp add: sh sc)
  have c2: "risk rep = (if score rep \<ge> 85 then LowRisk else if score rep \<ge> 70 then MediumRisk
                        else HighRisk)"
    by (simp add: rk riskOf_def)
  have c3: "shown rep = [complexityIssue (Fin 25), structureIssue] \<and> score rep = 77 \<and>
            risk rep = MediumRisk"
    if h: "length (sentences s) = 15 \<and> \<not> hasHeadings text \<and>
           avgSentenceLength (sentences s) = Fin 25 \<and>
           \<not> jsGreater (avgParagraphLength text) 500"
  proof -
    have i: "?is = [complexityIssue (Fin 25), structureIssue]"
      using h by (simp add: detectIssues_def)
    have "score rep = 77"
      by (simp add: sc i penalty_def complexityIssue_def structureIssue_def)
    then show ?thesis by (simp add: sh i rk riskOf_def)
  qed
  show ?thesis using c0 c1 c2 c3 by blast
qed

theorem analysis_score_and_risk_witness:
  "length (sentences spacedReader) = 15 \<and>
   \<not> hasHeadings spacedText \<and>
   avgSentenceLength (sentences spacedReader) = Fin 25 \<and>
   \<not> jsGreater (avgParagraphLength spacedText) 500 \<and>
   accessibilityIssues (analyzeAccessibility spacedText spacedReader)
     = [complexityIssue (Fin 25), structureIssue] \<and>
   map_option score (analysisResults (analyzeAccessibility spacedText spacedReader)) = Some 77 \<and>
   map_option risk (analysisResults (analyzeAccessibility spacedText spacedReader))
     = Some MediumRisk"
proof -
  have h1: "length (sentences spacedReader) = 15"
    by (simp add: sentences_spaced)
  have h2: "\<not> hasHeadings spacedText"
    by code_simp
  have h3: "avgSentenceLength (sentences spacedReader) = Fin 25"
    by (simp add: sentences_spaced avg_sentence25)
  have h4: "\<not> jsGreater (avgParagraphLength spacedText) 500"
    by code_simp
  have r: "analysisResults (analyzeAccessibility spacedText spacedReader)
             = Some (renderReport (detectIssues spacedText (sentences spacedReader)))"
    by (simp add: analyzeAccessibility_def displayAccessibilityAnalysis_def)
  note t = analysis_score_and_risk [OF r]
  from t h1 h2 h3 h4
  have c: "shown (renderReport (detectIssues spacedText (sentences spacedReader)))
             = [complexityIssue (Fin 25), structureIssue] \<and>
           score (renderReport (detectIssues spacedText (sentences spacedReader))) = 77 \<and>
           risk (renderReport (detectIssues spacedText (sentences spacedReader))) = MediumRisk"
    by blast
  from t have a: "shown (renderReport (detectIssues spacedText (sentences spacedReader)))
                    = accessibilityIssues (analyzeAccessibility spacedText spacedReader)"
    by blast
  have i: "accessibilityIssues (analyzeAccessibility spacedText spacedReader)
             = [complexityIssue (Fin 25), structureIssue]"
    using a c by simp
  have sc: "map_option score (analysisResults (analyzeAccessibility spacedText spacedReader))
              = Some 77"
    using c by (simp add: r)
  have rk: "map_option risk (analysisResults (analyzeAccessibility spacedText spacedReader))
              = Some MediumRisk"
    using c by (simp add: r)
  show ?thesis
    using h1 h2 h3 h4 i sc rk by blast
qed

lemma whitespace_only_density: "detectIssues '' '' [] = [densityIssue]"
  by code_simp

text \<open>
  Claim C7, as stated (the analyzer performs no division by zero): on the empty text there
  are no sentences and no paragraphs, so both divisors are 0 and both averages are \<open>NaN\<close>.
\<close>

theorem empty_input_divides_by_zero:
  "length (extractSentencesFromElement (ElementNode ''div'' [])) = 0 \<and>
   length (paragraphs []) = 0 \<and>
   avgSentenceLength (extractSentencesFromElement (ElementNode ''div'' [])) = NaN \<and>
   avgParagraphLength [] = NaN"
  by code_simp

text \<open>
  Claim C7, amended: the analyzer gives a report for every text and every list of
  sentences; its divisions by a zero count raise nothing and give \<open>NaN\<close> on the empty
  text, for which there are no sentences, no issues, score 100 and low risk.
\<close>

theorem analyzer_total_empty_input:
  "analysisResults (analyzeAccessibility text s)
     = Some (renderReport (detectIssues text (sentences s))) \<and>
   sentences (processDocument [] (ElementNode ''div'' []) s) = [] \<and>
   avgSentenceLength [] = NaN \<and> avgParagraphLength [] = NaN \<and>
   accessibilityIssues (analyzeAccessibility [] (processDocument [] (ElementNode ''div'' []) s)) = [] \<and>
   analysisResults (analyzeAccessibility [] (processDocument [] (ElementNode ''div'' []) s))
     = Some \<lparr>score = 100, risk = LowRisk, shown = [], recommendation = None\<rparr>"
proof -
  have p: "paragraphs [] = []" by code_simp
  have a: "avgSentenceLength [] = NaN" "avgParagraphLength [] = NaN"
    by (simp_all add: avgSentenceLength_def avgParagraphLength_def jsDiv_def p)
  have d: "detectIssues [] [] = []"
    by (simp add: detectIssues_def a)
  have r: "renderReport [] = \<lparr>score = 100, risk = LowRisk, shown = [], recommendation = None\<rparr>"
    by (simp add: renderReport_def computeScore_def riskOf_def recommend_def)
  have s0: "sentences (processDocument [] (ElementNode ''div'' []) s) = []"
    by (simp add: processDocument_def resetPlayback_def pauseReading_def cancel_def Let_def)
  show ?thesis
    using s0 a by (simp add: analyzeAccessibility_def displayAccessibilityAnalysis_def d r)
qed

text \<open>
  Claim C9 (report determinism). The report and the issues depend on the text and on
  \<open>this.sentences\<close> only: two readers with the same sentences get the same report whatever
  their other fields hold (the issues of an earlier analysis among them), and analysing
  again changes nothing.
\<close>

theorem analysis_deterministic:
  "sentences s1 = sentences s2 \<Longrightarrow>
     analysisResults (analyzeAccessibility text s1) = analysisResults (analyzeAccessibility text s2) \<and>
     accessibilityIssues (analyzeAccessibility text s1) = accessibilityIssues (analyzeAccessibility text s2) \<and>
     analyzeAccessibility text (analyzeAccessibility text s1) = analyzeAccessibility text s1"
  by (simp add: analyzeAccessibility_def displayAccessibilityAnalysis_def)

theorem analysis_deterministic_witness:
  "sentences (fire oneSentenceFile freshReader)
     = sentences (fire PlayClick (fire oneSentenceFile freshReader)) \<and>
   fire oneSentenceFile freshReader \<noteq> fire PlayClick (fire oneSentenceFile freshReader) \<and>
   analysisResults (analyzeAccessibility ''Hi.'' (fire oneSentenceFile freshReader))
     = analysisResults (analyzeAccessibility ''Hi.'' (fire PlayClick (fire oneSentenceFile freshReader)))"
proof -
  have h: "sentences (fire oneSentenceFile freshReader)
             = sentences (fire PlayClick (fire oneSentenceFile freshReader))"
    by code_simp
  have "isPlaying (fire oneSentenceFile freshReader)
          \<noteq> isPlaying (fire PlayClick (fire oneSentenceFile freshReader))"
    by code_simp
  then have d: "fire oneSentenceFile freshReader \<noteq> fire PlayClick (fire oneSentenceFile freshReader)"
    by auto
  show ?thesis
    using analysis_deterministic [OF h, of "''Hi.''"] h d by simp
qed

section \<open>Properties of the playback controller\<close>

lemma set_removeAt: "set (removeAt k xs) \<subseteq> set xs"
  by (auto simp: removeAt_def dest: in_set_takeD in_set_dropD)

lemma run_reachable: "reachable late s \<Longrightarrow> run late es s = Some t \<Longrightarrow> reachable late t"
  by (induction es arbitrary: s) (auto split: if_splits intro: reachable.step)

lemma inv_constructor: "playbackInv late (constructor d st vs)"
  by (auto simp: playbackInv_def constructor_def loadSettings_def toggleAccessibilityMode_def
        saveSettings_def announceToScreenReader_def Let_def split: option.splits)

lemma inv_read: "playbackInv late s \<Longrightarrow> playbackInv late (readCurrentSentence s)"
  by (auto simp: playbackInv_def readCurrentSentence_def pauseReading_def cancel_def speak_def
        Let_def)

lemma inv_toggle: "playbackInv late s \<Longrightarrow> playbackInv late (togglePlayback s)"
  by (auto simp: playbackInv_def togglePlayback_def startReading_def announceToScreenReader_def
        readCurrentSentence_def pauseReading_def cancel_def speak_def Let_def)

lemma inv_key: "playbackInv late s \<Longrightarrow> playbackInv late (handleKeyboard c k s)"
  by (cases k)
     (auto simp: playbackInv_def handleKeyboard_def togglePlayback_def startReading_def
        announceToScreenReader_def readCurrentSentence_def pauseReading_def cancel_def speak_def
        setTimeoutRead_def Let_def)

lemma inv_speed: "playbackInv late s \<Longrightarrow> playbackInv late (updateSpeed v (s\<lparr>speedSliderValue := v\<rparr>))"
  by (auto simp: playbackInv_def updateSpeed_def cancel_def setTimeoutRead_def)

lemma inv_mode: "playbackInv late s \<Longrightarrow> playbackInv late (toggleAccessibilityMode s)"
  by (auto simp: playbackInv_def toggleAccessibilityMode_def saveSettings_def
        announceToScreenReader_def Let_def)

lemma inv_upload: "playbackInv late s \<Longrightarrow> playbackInv late (handleFileUpload f t d s)"
  by (auto simp: playbackInv_def handleFileUpload_def analyzeAccessibility_def
        displayAccessibilityAnalysis_def processDocument_def resetPlayback_def pauseReading_def
        cancel_def announceToScreenReader_def Let_def)

lemma inv_timer: "playbackInv late s \<Longrightarrow> playbackInv late (readCurrentSentence (s\<lparr>timers := n\<rparr>))"
  by (rule inv_read) (simp add: playbackInv_def)

lemma inv_end:
  assumes "playbackInv late s" "k < length (requests s)" "late \<or> \<not> cancelled (requests s ! k)"
  shows "playbackInv late (onend (s\<lparr>requests := removeAt k (requests s)\<rparr>))"
proof -
  have u: "utterance s \<noteq> None"
    using assms by (auto simp: playbackInv_def)
  have lt: "\<not> late \<Longrightarrow> currentSentence s < int (length (sentences s))"
    using assms by (auto simp: playbackInv_def)
  show ?thesis
    using assms(1) u lt set_removeAt [of k "requests s"]
    by (auto simp: playbackInv_def onend_def pauseReading_def cancel_def setTimeoutRead_def
          announceToScreenReader_def Let_def)
qed

lemma inv_error:
  assumes "playbackInv late s"
  shows "playbackInv late (onerror (s\<lparr>requests := removeAt k (requests s)\<rparr>))"
proof -
  have "requests s = [] \<Longrightarrow> removeAt k (requests s) = []"
    by (simp add: removeAt_def)
  then show ?thesis
    using assms set_removeAt [of k "requests s"]
    by (auto simp: playbackInv_def onerror_def pauseReading_def cancel_def Let_def)
qed

lemma inv_fire: "playbackInv late s \<Longrightarrow> enabled late e s \<Longrightarrow> playbackInv late (fire e s)"
proof (cases e)
  case (VoicesChanged vs)
  assume "playbackInv late s"
  then show ?thesis using VoicesChanged by (simp add: playbackInv_def)
qed (simp_all add: inv_toggle inv_key inv_speed inv_mode inv_upload inv_timer inv_end inv_error)

lemma reachable_inv: "reachable late s \<Longrightarrow> playbackInv late s"
  by (induction rule: reachable.induct) (simp_all add: inv_constructor inv_fire)

text \<open>
  Claim C4, as stated (the index never exceeds the sentence count): one sentence is being
  read when an empty file is uploaded, which resets the index to 0 and cancels the
  utterance; the engine then fires \<open>end\<close> on the cancelled utterance and \<open>onend\<close> increments
  the index to 1, with no sentences.
\<close>

theorem index_exceeds_length_counterexample:
  "map_option currentSentence
     (run True [oneSentenceFile, PlayClick, emptyFile, SpeechEnd 0] freshReader) = Some 1 \<and>
   map_option sentences
     (run True [oneSentenceFile, PlayClick, emptyFile, SpeechEnd 0] freshReader) = Some []"
  by code_simp

text \<open>
  Claim C4, amended: at every reachable point the index is at least 0 and the status is
  \<open>Finished\<close> exactly when the index equals the sentence count; the index is at most the
  sentence count at every point reached without an \<open>end\<close> event on a cancelled utterance.
\<close>

theorem playback_index_invariant:
  "reachable late s \<Longrightarrow>
     0 \<le> currentSentence s \<and>
     (status s = Finished \<longleftrightarrow> currentSentence s = int (length (sentences s))) \<and>
     (\<not> late \<longrightarrow> currentSentence s \<le> int (length (sentences s)))"
  using reachable_inv [of late s] by (auto simp: playbackInv_def status_def)

theorem playback_index_invariant_witness:
  "reachable False (the (run False [oneSentenceFile, PlayClick, SpeechEnd 0] freshReader)) \<and>
   currentSentence (the (run False [oneSentenceFile, PlayClick, SpeechEnd 0] freshReader)) = 1 \<and>
   sentences (the (run False [oneSentenceFile, PlayClick, SpeechEnd 0] freshReader)) = [''Hi.''] \<and>
   status (the (run False [oneSentenceFile, PlayClick, SpeechEnd 0] freshReader)) = Finished"
proof -
  let ?w = "the (run False [oneSentenceFile, PlayClick, SpeechEnd 0] freshReader)"
  have "run False [oneSentenceFile, PlayClick, SpeechEnd 0] freshReader \<noteq> None"
    by code_simp
  then have "run False [oneSentenceFile, PlayClick, SpeechEnd 0] freshReader = Some ?w"
    by simp
  then have r: "reachable False ?w"
    unfolding freshReader_def by (rule run_reachable [OF reachable.start])
  have c: "currentSentence ?w = 1" and l: "sentences ?w = [''Hi.'']"
    by code_simp+
  show ?thesis
    using playback_index_invariant [OF r] r c l by simp
qed

text \<open>
  Claim C5, as stated (start moves a Finished controller to Playing and resets the index
  to 0): after the only sentence has been read the reader is \<open>Finished\<close> with one sentence
  and index 1; \<open>startReading\<close> sets \<open>isPlaying\<close>, \<open>readCurrentSentence\<close> finds the index at
  the length and pauses again, and the index is still 1.
\<close>

theorem start_from_finished_counterexample:
  "run False [oneSentenceFile, PlayClick, SpeechEnd 0] freshReader \<noteq> None \<and>
   status finishedReader = Finished \<and>
   length (sentences finishedReader) = 1 \<and>
   status (startReading finishedReader) = Finished \<and>
   currentSentence (startReading finishedReader) = 1"
  by code_simp

text \<open>
  Claim C5, amended: with no sentences \<open>startReading\<close> only announces that no document is
  loaded and changes nothing else; with sentences and the index below their number the
  status becomes \<open>Playing\<close> and the sentence at the index is spoken; with the index at
  their number the reader stays \<open>Finished\<close> and nothing is spoken; the index is never
  changed.
\<close>

theorem startReading_effect:
  "(length (sentences s) = 0 \<longrightarrow>
      startReading s
        = s\<lparr>announcements := announcements s @
              [''No document loaded. Please upload a file first.'']\<rparr>) \<and>
   (length (sentences s) > 0 \<and> currentSentence s < int (length (sentences s)) \<longrightarrow>
      status (startReading s) = Playing \<and>
      requests (startReading s)
        = requests s @ [\<lparr>forIndex = currentSentence s, utt = newUtterance s, cancelled = False\<rparr>]) \<and>
   (length (sentences s) > 0 \<and> currentSentence s = int (length (sentences s)) \<longrightarrow>
      status (startReading s) = Finished \<and>
      map utt (requests (startReading s)) = map utt (requests s)) \<and>
   currentSentence (startReading s) = currentSentence s"
  by (auto simp: startReading_def readCurrentSentence_def pauseReading_def cancel_def speak_def
        announceToScreenReader_def status_def newUtterance_def Let_def comp_def)

theorem startReading_effect_witness:
  "length (sentences freshReader) = 0 \<and>
   startReading freshReader
     = freshReader\<lparr>announcements := announcements freshReader @
         [''No document loaded. Please upload a file first.'']\<rparr> \<and>
   length (sentences (fire oneSentenceFile freshReader)) > 0 \<and>
   currentSentence (fire oneSentenceFile freshReader) = 0 \<and>
   status (fire oneSentenceFile freshReader) = Idle \<and>
   status (startReading (fire oneSentenceFile freshReader)) = Playing \<and>
   currentSentence (startReading (fire oneSentenceFile freshReader)) = 0 \<and>
   length (sentences finishedReader) > 0 \<and>
   currentSentence finishedReader = int (length (sentences finishedReader)) \<and>
   status (startReading finishedReader) = Finished"
proof -
  have a: "length (sentences freshReader) = 0"
    by code_simp
  have b: "length (sentences (fire oneSentenceFile freshReader)) > 0"
          "currentSentence (fire oneSentenceFile freshReader) = 0"
          "status (fire oneSentenceFile freshReader) = Idle"
    by code_simp+
  have c: "length (sentences finishedReader) > 0"
          "currentSentence finishedReader = int (length (sentences finishedReader))"
    by code_simp+
  show ?thesis
    using startReading_effect [of freshReader]
      startReading_effect [of "fire oneSentenceFile freshReader"]
      startReading_effect [of finishedReader] a b c
    by simp
qed

text \<open>
  Claim C8, as stated (a late completion for an index that is no longer current is
  discarded): the reader plays sentence 3 of six, Ctrl+ArrowRight moves the index to 4
  and cancels the utterance made for index 3; when the engine then fires \<open>end\<close> on that
  utterance, the index becomes 5.
\<close>

theorem stale_completion_counterexample:
  "map_option status (run True playingAtThree freshReader) = Some Playing \<and>
   map_option currentSentence (run True playingAtThree freshReader) = Some 3 \<and>
   run True (playingAtThree @ [KeyDown True ArrowRight]) freshReader \<noteq> None \<and>
   currentSentence seekReader = 4 \<and>
   map forIndex (requests seekReader) = [3] \<and>
   map cancelled (requests seekReader) = [True] \<and>
   map_option currentSentence
     (run True (playingAtThree @ [KeyDown True ArrowRight, SpeechEnd 0]) freshReader) = Some 5"
  by code_simp

text \<open>
  Claim C8, amended: the handlers do not compare indexes. An \<open>end\<close> event on a pending
  utterance made for another index than the current one advances the current index by
  one, after which reading goes on if the reader is playing and the new index is below the
  sentence count, and stops otherwise; an \<open>error\<close> event on it stops the reader and leaves
  the index.
\<close>

theorem stale_events_act:
  "k < length (requests s) \<Longrightarrow> forIndex (requests s ! k) \<noteq> currentSentence s \<Longrightarrow>
     currentSentence (fire (SpeechEnd k) s) = currentSentence s + 1 \<and>
     (currentSentence s + 1 < int (length (sentences s)) \<and> isPlaying s \<longrightarrow>
        isPlaying (fire (SpeechEnd k) s) \<and> timers (fire (SpeechEnd k) s) = Suc (timers s)) \<and>
     (currentSentence s + 1 \<ge> int (length (sentences s)) \<longrightarrow>
        \<not> isPlaying (fire (SpeechEnd k) s)) \<and>
     currentSentence (fire (SpeechError k) s) = currentSentence s \<and>
     \<not> isPlaying (fire (SpeechError k) s)"
  by (auto simp: onend_def onerror_def pauseReading_def cancel_def setTimeoutRead_def
        announceToScreenReader_def Let_def)

theorem stale_events_act_witness:
  "(0::nat) < length (requests seekReader) \<and>
   forIndex (requests seekReader ! 0) = 3 \<and>
   currentSentence seekReader = 4 \<and>
   currentSentence (fire (SpeechEnd 0) seekReader) = 5 \<and>
   isPlaying (fire (SpeechEnd 0) seekReader) \<and>
   currentSentence (fire (SpeechError 0) seekReader) = 4 \<and>
   \<not> isPlaying (fire (SpeechError 0) seekReader)"
proof -
  have a: "(0::nat) < length (requests seekReader)"
    and b: "forIndex (requests seekReader ! 0) = 3"
    and c: "currentSentence seekReader = 4"
    and d: "length (sentences seekReader) = 6"
    and e: "isPlaying seekReader"
    by code_simp+
  have n: "forIndex (requests seekReader ! 0) \<noteq> currentSentence seekReader"
    using b c by simp
  show ?thesis
    using stale_events_act [OF a n] a b c d e by simp
qed

section \<open>Properties of the utterances\<close>

lemma cfg_fire: "requestsConfigured s \<Longrightarrow> requestsConfigured (fire e s)"
proof (cases e)
  case (KeyDown c k)
  assume "requestsConfigured s"
  then show ?thesis using KeyDown
    by (cases k)
       (auto simp: requestsConfigured_def handleKeyboard_def togglePlayback_def startReading_def
          announceToScreenReader_def readCurrentSentence_def pauseReading_def cancel_def speak_def
          setTimeoutRead_def newUtterance_def Let_def)
next
  case (SpeechEnd k)
  assume "requestsConfigured s"
  then show ?thesis using SpeechEnd set_removeAt [of k "requests s"]
    by (auto simp: requestsConfigured_def onend_def pauseReading_def cancel_def setTimeoutRead_def
          announceToScreenReader_def Let_def)
next
  case (SpeechError k)
  assume "requestsConfigured s"
  then show ?thesis using SpeechError set_removeAt [of k "requests s"]
    by (auto simp: requestsConfigured_def onerror_def pauseReading_def cancel_def Let_def)
qed (auto simp: requestsConfigured_def togglePlayback_def startReading_def
          announceToScreenReader_def readCurrentSentence_def pauseReading_def cancel_def speak_def
          setTimeoutRead_def newUtterance_def updateSpeed_def toggleAccessibilityMode_def
          saveSettings_def handleFileUpload_def analyzeAccessibility_def
          displayAccessibilityAnalysis_def processDocument_def resetPlayback_def Let_def)

lemma cfg_constructor: "requestsConfigured (constructor d st vs)"
  by (auto simp: requestsConfigured_def constructor_def loadSettings_def
        toggleAccessibilityMode_def saveSettings_def announceToScreenReader_def Let_def
        split: option.splits)

lemma reachable_cfg: "reachable late s \<Longrightarrow> requestsConfigured s"
  by (induction rule: reachable.induct) (simp_all add: cfg_constructor cfg_fire)

lemma oneSentence_reachable: "reachable late (fire oneSentenceFile freshReader)"
  unfolding freshReader_def
  by (rule reachable.step [OF reachable.start]) (simp add: oneSentenceFile_def)

text \<open>
  Claim C10 (pitch 1.1 and volume 1 on every utterance, the rate read from the slider when
  the utterance is made). Every pending utterance of a reachable reader has pitch 1.1 and
  volume 1. When \<open>readCurrentSentence\<close> speaks, the new utterance has these and the rate
  parsed from the slider's value at that moment. A speed change while the reader is not
  playing changes the slider's value and nothing else, and the next \<open>startReading\<close> speaks
  at the new rate.
\<close>

theorem utterance_configuration:
  "reachable late s \<Longrightarrow>
     (\<forall>r \<in> set (requests s). pitch (utt r) = 11 / 10 \<and> volume (utt r) = 1) \<and>
     (isPlaying s \<and> currentSentence s < int (length (sentences s)) \<longrightarrow>
        requests (readCurrentSentence s)
          = requests s @ [\<lparr>forIndex = currentSentence s, utt = newUtterance s, cancelled = False\<rparr>] \<and>
        rate (newUtterance s) = ParseFloat (speedSliderValue s) \<and>
        pitch (newUtterance s) = 11 / 10 \<and> volume (newUtterance s) = 1) \<and>
     (\<not> isPlaying s \<longrightarrow>
        fire (SpeedInput v) s = s\<lparr>speedSliderValue := v\<rparr> \<and>
        (currentSentence s < int (length (sentences s)) \<longrightarrow>
           length (requests (startReading (fire (SpeedInput v) s))) = Suc (length (requests s)) \<and>
           rate (utt (last (requests (startReading (fire (SpeedInput v) s))))) = ParseFloat v))"
proof -
  assume r: "reachable late s"
  have a: "\<forall>r \<in> set (requests s). pitch (utt r) = 11 / 10 \<and> volume (utt r) = 1"
    using reachable_cfg [OF r] by (simp add: requestsConfigured_def)
  have b: "isPlaying s \<and> currentSentence s < int (length (sentences s)) \<longrightarrow>
        requests (readCurrentSentence s)
          = requests s @ [\<lparr>forIndex = currentSentence s, utt = newUtterance s, cancelled = False\<rparr>] \<and>
        rate (newUtterance s) = ParseFloat (speedSliderValue s) \<and>
        pitch (newUtterance s) = 11 / 10 \<and> volume (newUtterance s) = 1"
    by (auto simp: readCurrentSentence_def speak_def newUtterance_def)
  have c: "\<not> isPlaying s \<longrightarrow>
        fire (SpeedInput v) s = s\<lparr>speedSliderValue := v\<rparr> \<and>
        (currentSentence s < int (length (sentences s)) \<longrightarrow>
           length (requests (startReading (fire (SpeedInput v) s))) = Suc (length (requests s)) \<and>
           rate (utt (last (requests (startReading (fire (SpeedInput v) s))))) = ParseFloat v)"
    using reachable_inv [OF r]
    by (auto simp: playbackInv_def updateSpeed_def startReading_def readCurrentSentence_def
          speak_def newUtterance_def)
  show ?thesis using a b c by blast
qed

theorem utterance_configuration_witness:
  "reachable False (fire oneSentenceFile freshReader) \<and>
   \<not> isPlaying (fire oneSentenceFile freshReader) \<and>
   speedSliderValue (fire oneSentenceFile freshReader) = ''1'' \<and>
   fire (SpeedInput ''1.5'') (fire oneSentenceFile freshReader)
     = (fire oneSentenceFile freshReader)\<lparr>speedSliderValue := ''1.5''\<rparr> \<and>
   length (requests (startReading (fire (SpeedInput ''1.5'') (fire oneSentenceFile freshReader))))
     = 1 \<and>
   rate (utt (last (requests
       (startReading (fire (SpeedInput ''1.5'') (fire oneSentenceFile freshReader))))))
     = ParseFloat ''1.5''"
proof -
  let ?w = "fire oneSentenceFile freshReader"
  have r: "reachable False ?w"
    by (rule oneSentence_reachable)
  have a: "\<not> isPlaying ?w" and b: "currentSentence ?w < int (length (sentences ?w))"
    and c: "requests ?w = []" and d: "speedSliderValue ?w = ''1''"
    by code_simp+
  note t = utterance_configuration [OF r, of "''1.5''"]
  from t a have e1: "fire (SpeedInput ''1.5'') ?w = ?w\<lparr>speedSliderValue := ''1.5''\<rparr>"
    by blast
  from t a b have "length (requests (startReading (fire (SpeedInput ''1.5'') ?w)))
                     = Suc (length (requests ?w))"
    by blast
  also have "\<dots> = 1"
    by (simp only: c list.size One_nat_def)
  finally have e2: "length (requests (startReading (fire (SpeedInput ''1.5'') ?w))) = 1" .
  from t a b have e3: "rate (utt (last (requests (startReading (fire (SpeedInput ''1.5'') ?w)))))
                         = ParseFloat ''1.5''"
    by blast
  show ?thesis
    using r a d e1 e2 e3 by blast
qed

end
